theory Spec2Isabelle
  imports Complex_Main
begin

section \<open>Strings and numbers of the front end\<close>

text \<open>
  The front end is TypeScript. Its strings are modelled as \<^typ>\<open>string\<close>, the bytes of the
  UTF-8 text as the source files store it; the four icons of \<open>getRiskIcon\<close> are therefore
  written as their UTF-8 bytes. A \<open>number\<close> of the data model is a finite double read from a
  form input (\<open>parseInt(..) || d\<close>) or from a JSON response, so it is never NaN or infinite;
  it is modelled as a rational, on which \<open><\<close> and \<open>>\<close> agree with the comparison of doubles.
\<close>

type_synonym number = rat

text \<open>
  \<open>String.prototype.toLowerCase\<close> on the ASCII letters. No character outside \<open>A\<close>..\<open>Z\<close>
  lower-cases to one of the letters of \<open>low\<close>, \<open>moderate\<close> or \<open>high\<close>, so on every other
  byte the function is the identity as far as the switches below can tell.
\<close>

definition toLowerCase_char :: "char \<Rightarrow> char" where
  "toLowerCase_char c =
     (let n = (of_char c :: nat) in if 65 \<le> n \<and> n \<le> 90 then char_of (n + 32) else c)"

definition toLowerCase :: "string \<Rightarrow> string" where
  "toLowerCase s = map toLowerCase_char s"

section \<open>Risk level lookups (ResultCard.tsx and lib/utils.ts)\<close>

text \<open>
  \<^verbatim>\<open>
  const getRiskDescription = (level: string) => {
    switch (level.toLowerCase()) {
      case 'low':      return 'Your risk of heart disease is relatively low. ...'
      case 'moderate': return 'Your risk of heart disease is moderate. ...'
      case 'high':     return 'Your risk of heart disease is high. ...'
      default:         return 'Risk assessment completed.'
    }
  }
  \<close>
\<close>

definition getRiskDescription :: "string \<Rightarrow> string" where
  "getRiskDescription level =
     (let l = toLowerCase level in
      if l = ''low'' then
        ''Your risk of heart disease is relatively low. Continue maintaining a healthy lifestyle.''
      else if l = ''moderate'' then
        ''Your risk of heart disease is moderate. Consider lifestyle changes and regular health checkups.''
      else if l = ''high'' then
        ''Your risk of heart disease is high. Please consult a healthcare professional immediately.''
      else ''Risk assessment completed.'')"

definition getRiskColor :: "string \<Rightarrow> string" where
  "getRiskColor riskLevel =
     (let l = toLowerCase riskLevel in
      if l = ''low'' then ''text-green-600 bg-green-50''
      else if l = ''moderate'' then ''text-yellow-600 bg-yellow-50''
      else if l = ''high'' then ''text-red-600 bg-red-50''
      else ''text-gray-600 bg-gray-50'')"

text \<open>
  The icons are U+2705, U+26A0 U+FE0F, U+1F6A8 and, for the default, U+2753.
\<close>

definition getRiskIcon :: "string \<Rightarrow> string" where
  "getRiskIcon riskLevel =
     (let l = toLowerCase riskLevel in
      if l = ''low'' then [CHR 0xE2, CHR 0x9C, CHR 0x85]
      else if l = ''moderate'' then [CHR 0xE2, CHR 0x9A, CHR 0xA0, CHR 0xEF, CHR 0xB8, CHR 0x8F]
      else if l = ''high'' then [CHR 0xF0, CHR 0x9F, CHR 0x9A, CHR 0xA8]
      else [CHR 0xE2, CHR 0x9D, CHR 0x93])"

text \<open>The four literals \<open>getRiskDescription\<close> can return, in the order of its cases.\<close>

definition risk_descriptions :: "string list" where
  "risk_descriptions =
     [''Your risk of heart disease is relatively low. Continue maintaining a healthy lifestyle.'',
      ''Your risk of heart disease is moderate. Consider lifestyle changes and regular health checkups.'',
      ''Your risk of heart disease is high. Please consult a healthcare professional immediately.'',
      ''Risk assessment completed.'']"

section \<open>The data model (lib/api.ts)\<close>

text \<open>
  \<open>HeartDiseaseInput\<close>. The four categorical fields are string literal unions in the
  TypeScript (\<open>'Male' | 'Female'\<close>, ...). The types are erased when the program runs and the
  values arrive unchecked from \<open>response.data\<close>, so the fields are the strings they are at
  run time; the enumerations are \<open>gender_values\<close> ... \<open>chest_pain_type_values\<close> below.
\<close>

record HeartDiseaseInput =
  age :: number
  gender :: string
  cholesterol :: number
  blood_pressure :: number
  heart_rate :: number
  smoking :: string
  alcohol_intake :: string
  exercise_hours :: number
  family_history :: bool
  diabetes :: bool
  obesity :: bool
  stress_level :: number
  blood_sugar :: number
  exercise_induced_angina :: bool
  chest_pain_type :: string

definition gender_values :: "string list" where
  "gender_values = [''Male'', ''Female'']"

definition smoking_values :: "string list" where
  "smoking_values = [''Never'', ''Former'', ''Current'']"

definition alcohol_intake_values :: "string list" where
  "alcohol_intake_values = [''None'', ''Moderate'', ''Heavy'']"

definition chest_pain_type_values :: "string list" where
  "chest_pain_type_values =
     [''Typical Angina'', ''Atypical Angina'', ''Non-anginal Pain'', ''Asymptomatic'']"

text \<open>
  \<open>FeatureContribution.value\<close> is \<open>number | string | boolean\<close>. The fields \<open>value\<close> and
  \<open>notes\<close> are named \<open>contribution\<close> and \<open>prediction_notes\<close> here, the source's names
  being reserved words.
\<close>

datatype contribution_value = NumberValue number | StringValue string | BooleanValue bool

record FeatureContribution =
  feature :: string
  contribution :: contribution_value
  importance :: number

record HeartDiseasePrediction =
  risk_score :: number
  risk_level :: string
  top_contributors :: "FeatureContribution list"
  model_version :: string
  prediction_notes :: "string list"

record UploadResponse =
  success :: bool
  message :: string
  extracted_data :: "HeartDiseaseInput option"
  confidence :: "number option"

text \<open>
  A promise of the API client settles once: fulfilled with \<open>response.data\<close>, or rejected
  with what was thrown. Both handlers read a rejection as
  \<open>err instanceof Error ? err.message : fallback\<close>.
\<close>

datatype thrown = ErrorObject string | NotAnError

datatype 'a settled = Fulfilled 'a | Rejected thrown

definition message_or :: "thrown \<Rightarrow> string \<Rightarrow> string" where
  "message_or err fallback = (case err of ErrorObject m \<Rightarrow> m | NotAnError \<Rightarrow> fallback)"

section \<open>ManualForm.tsx\<close>

text \<open>
  \<open>initialData?: Partial<HeartDiseaseInput>\<close>: every field may be missing (\<open>undefined\<close>
  or \<open>null\<close>, both \<open>None\<close>).
\<close>

record PartialHeartDiseaseInput =
  age_opt :: "number option"
  gender_opt :: "string option"
  cholesterol_opt :: "number option"
  blood_pressure_opt :: "number option"
  heart_rate_opt :: "number option"
  smoking_opt :: "string option"
  alcohol_intake_opt :: "string option"
  exercise_hours_opt :: "number option"
  family_history_opt :: "bool option"
  diabetes_opt :: "bool option"
  obesity_opt :: "bool option"
  stress_level_opt :: "number option"
  blood_sugar_opt :: "number option"
  exercise_induced_angina_opt :: "bool option"
  chest_pain_type_opt :: "string option"

text \<open>A complete \<open>HeartDiseaseInput\<close> used where a \<open>Partial<HeartDiseaseInput>\<close> is expected.\<close>

definition as_partial :: "HeartDiseaseInput \<Rightarrow> PartialHeartDiseaseInput" where
  "as_partial d =
     \<lparr> age_opt = Some (age d), gender_opt = Some (gender d),
       cholesterol_opt = Some (cholesterol d), blood_pressure_opt = Some (blood_pressure d),
       heart_rate_opt = Some (heart_rate d), smoking_opt = Some (smoking d),
       alcohol_intake_opt = Some (alcohol_intake d), exercise_hours_opt = Some (exercise_hours d),
       family_history_opt = Some (family_history d), diabetes_opt = Some (diabetes d),
       obesity_opt = Some (obesity d), stress_level_opt = Some (stress_level d),
       blood_sugar_opt = Some (blood_sugar d),
       exercise_induced_angina_opt = Some (exercise_induced_angina d),
       chest_pain_type_opt = Some (chest_pain_type d) \<rparr>"

text \<open>
  \<open>initialData?.field\<close> is \<open>undefined\<close> when \<open>initialData\<close> is. \<open>a || d\<close> is \<open>d\<close> when
  \<open>a\<close> is falsy: missing, the number 0, the empty string or \<open>false\<close>.
\<close>

definition optional_chain :: "'r option \<Rightarrow> ('r \<Rightarrow> 'a option) \<Rightarrow> 'a option" where
  "optional_chain obj field = (case obj of None \<Rightarrow> None | Some r \<Rightarrow> field r)"

definition or_number :: "number option \<Rightarrow> number \<Rightarrow> number" where
  "or_number a d = (case a of None \<Rightarrow> d | Some x \<Rightarrow> if x = 0 then d else x)"

definition or_string :: "string option \<Rightarrow> string \<Rightarrow> string" where
  "or_string a d = (case a of None \<Rightarrow> d | Some x \<Rightarrow> if x = [] then d else x)"

definition or_boolean :: "bool option \<Rightarrow> bool \<Rightarrow> bool" where
  "or_boolean a d = (case a of None \<Rightarrow> d | Some x \<Rightarrow> if x then x else d)"

text \<open>The initial value of the \<open>formData\<close> state (the argument of \<open>useState\<close>).\<close>

definition initialFormData :: "PartialHeartDiseaseInput option \<Rightarrow> HeartDiseaseInput" where
  "initialFormData initialData =
     \<lparr> age = or_number (optional_chain initialData age_opt) 50,
       gender = or_string (optional_chain initialData gender_opt) ''Male'',
       cholesterol = or_number (optional_chain initialData cholesterol_opt) 200,
       blood_pressure = or_number (optional_chain initialData blood_pressure_opt) 120,
       heart_rate = or_number (optional_chain initialData heart_rate_opt) 72,
       smoking = or_string (optional_chain initialData smoking_opt) ''Never'',
       alcohol_intake = or_string (optional_chain initialData alcohol_intake_opt) ''None'',
       exercise_hours = or_number (optional_chain initialData exercise_hours_opt) 3,
       family_history = or_boolean (optional_chain initialData family_history_opt) False,
       diabetes = or_boolean (optional_chain initialData diabetes_opt) False,
       obesity = or_boolean (optional_chain initialData obesity_opt) False,
       stress_level = or_number (optional_chain initialData stress_level_opt) 5,
       blood_sugar = or_number (optional_chain initialData blood_sugar_opt) 100,
       exercise_induced_angina =
         or_boolean (optional_chain initialData exercise_induced_angina_opt) False,
       chest_pain_type = or_string (optional_chain initialData chest_pain_type_opt) ''Asymptomatic'' \<rparr>"

record ManualForm =
  formData :: HeartDiseaseInput
  isSubmitting :: bool

definition ManualForm_mount :: "PartialHeartDiseaseInput option \<Rightarrow> ManualForm" where
  "ManualForm_mount initialData =
     \<lparr> formData = initialFormData initialData, isSubmitting = False \<rparr>"

text \<open>
  The checks of \<open>handleSubmit\<close>'s \<open>try\<close> block, in the order of the source: \<open>Inl\<close> is the
  message of the \<open>Error\<close> thrown, \<open>Inr ()\<close> is reaching \<open>onSubmit(formData)\<close>.
\<close>

definition basic_validation :: "HeartDiseaseInput \<Rightarrow> string + unit" where
  "basic_validation fd =
     (if age fd < 18 \<or> age fd > 120 then Inl ''Age must be between 18 and 120''
      else if cholesterol fd < 100 \<or> cholesterol fd > 600
        then Inl ''Cholesterol must be between 100 and 600 mg/dL''
      else if blood_pressure fd < 60 \<or> blood_pressure fd > 250
        then Inl ''Blood pressure must be between 60 and 250 mmHg''
      else if heart_rate fd < 40 \<or> heart_rate fd > 200
        then Inl ''Heart rate must be between 40 and 200 bpm''
      else if stress_level fd < 1 \<or> stress_level fd > 10
        then Inl ''Stress level must be between 1 and 10''
      else if blood_sugar fd < 70 \<or> blood_sugar fd > 300
        then Inl ''Blood sugar must be between 70 and 300 mg/dL''
      else if exercise_hours fd < 0 \<or> exercise_hours fd > 24
        then Inl ''Exercise hours must be between 0 and 24 per week''
      else Inr ())"

text \<open>
  The two props a form calls. \<open>handleSubmit\<close> calls exactly one of them, once: \<open>onSubmit\<close>
  with the form data when no check throws, \<open>onError\<close> with the caught message otherwise
  (every value thrown is an \<open>Error\<close>). \<open>isSubmitting\<close> is set on entry and cleared in
  \<open>finally\<close>; \<open>formData\<close> is not written.
\<close>

datatype form_callback = OnSubmit HeartDiseaseInput | OnError string

definition handleSubmit :: "ManualForm \<Rightarrow> ManualForm \<times> form_callback" where
  "handleSubmit st =
     (let st1 = st\<lparr>isSubmitting := True\<rparr>;
          called = (case basic_validation (formData st1) of
                      Inr _ \<Rightarrow> OnSubmit (formData st1)
                    | Inl m \<Rightarrow> OnError (message_or (ErrorObject m) ''Validation failed''))
      in (st1\<lparr>isSubmitting := False\<rparr>, called))"

section \<open>UploadCard.tsx\<close>

record UploadCard =
  isUploading :: bool
  uploadResult :: "UploadResponse option"

definition UploadCard_mount :: UploadCard where
  "UploadCard_mount = \<lparr> isUploading = False, uploadResult = None \<rparr>"

text \<open>The two props an upload card calls.\<close>

datatype upload_callback = OnDataExtracted HeartDiseaseInput | OnUploadError string

text \<open>
  \<open>onDrop\<close>, given how \<open>apiClient.uploadFile(file)\<close> settles. Without a first file it
  returns before any state is written and calls nothing. Otherwise it calls one prop:
  \<open>onDataExtracted\<close> when \<open>result.success && result.extracted_data\<close>, \<open>onError\<close> with
  \<open>result.message\<close> when not, \<open>onError\<close> with the caught message when the upload rejects.
\<close>

definition onDrop ::
  "('file \<Rightarrow> UploadResponse settled) \<Rightarrow> UploadCard \<Rightarrow> 'file list
     \<Rightarrow> UploadCard \<times> upload_callback option" where
  "onDrop uploadFile uc acceptedFiles =
     (case acceptedFiles of
        [] \<Rightarrow> (uc, None)
      | file # _ \<Rightarrow>
          (let c1 = uc\<lparr>isUploading := True, uploadResult := None\<rparr> in
           case uploadFile file of
             Fulfilled result \<Rightarrow>
               (let c2 = c1\<lparr>uploadResult := Some result\<rparr>;
                    called = (if success result
                              then (case extracted_data result of
                                      Some d \<Rightarrow> OnDataExtracted d
                                    | None \<Rightarrow> OnUploadError (message result))
                              else OnUploadError (message result))
                in (c2\<lparr>isUploading := False\<rparr>, Some called))
           | Rejected err \<Rightarrow>
               (c1\<lparr>isUploading := False\<rparr>,
                Some (OnUploadError (message_or err ''Upload failed'')))))"

text \<open>
  The button \<open>Use Extracted Data for Prediction\<close> is rendered when
  \<open>uploadResult.success && uploadResult.extracted_data\<close>; its handler
  \<open>handleSubmitExtracted\<close> passes \<open>uploadResult.extracted_data\<close> to \<open>onDataExtracted\<close>.
\<close>

definition extracted_button_rendered :: "UploadCard \<Rightarrow> bool" where
  "extracted_button_rendered uc =
     (case uploadResult uc of
        None \<Rightarrow> False
      | Some r \<Rightarrow> success r \<and> extracted_data r \<noteq> None)"

definition handleSubmitExtracted :: "UploadCard \<Rightarrow> upload_callback option" where
  "handleSubmitExtracted uc =
     (case optional_chain (uploadResult uc) extracted_data of
        Some d \<Rightarrow> Some (OnDataExtracted d)
      | None \<Rightarrow> None)"

section \<open>App.tsx\<close>

datatype AppState = Upload | Manual | Result | Loading

record App =
  currentState :: AppState
  prediction :: "HeartDiseasePrediction option"
  error :: "string option"
  extractedData :: "HeartDiseaseInput option"

definition App_mount :: App where
  "App_mount = \<lparr> currentState = Upload, prediction = None, error = None, extractedData = None \<rparr>"

definition handleDataExtracted :: "App \<Rightarrow> HeartDiseaseInput \<Rightarrow> App" where
  "handleDataExtracted s d = s\<lparr>extractedData := Some d, currentState := Manual, error := None\<rparr>"

definition handleError :: "App \<Rightarrow> string \<Rightarrow> App" where
  "handleError s errorMessage = s\<lparr>error := Some errorMessage\<rparr>"

definition handleReset :: "App \<Rightarrow> App" where
  "handleReset s =
     s\<lparr>currentState := Upload, prediction := None, error := None, extractedData := None\<rparr>"

text \<open>
  \<open>handleFormSubmit\<close>, given how \<open>apiClient.predict\<close> settles a request.
  \<open>handleFormSubmit_pending\<close> is the state while the call is awaited. The second component
  of \<open>handleFormSubmit\<close> lists the requests it sends to \<open>apiClient.predict\<close>, in order: the
  function awaits one call and has no loop.
\<close>

definition handleFormSubmit_pending :: "App \<Rightarrow> App" where
  "handleFormSubmit_pending s = s\<lparr>currentState := Loading, error := None\<rparr>"

definition handleFormSubmit ::
  "(HeartDiseaseInput \<Rightarrow> HeartDiseasePrediction settled) \<Rightarrow> App \<Rightarrow> HeartDiseaseInput
     \<Rightarrow> App \<times> HeartDiseaseInput list" where
  "handleFormSubmit predict s d =
     (let s1 = handleFormSubmit_pending s in
      case predict d of
        Fulfilled r \<Rightarrow> (s1\<lparr>prediction := Some r, currentState := Result\<rparr>, [d])
      | Rejected err \<Rightarrow>
          (s1\<lparr>error := Some (message_or err ''Prediction failed''), currentState := Manual\<rparr>,
           [d]))"

text \<open>
  What \<open>renderContent\<close> mounts: the upload card, the manual form with
  \<open>initialData = extractedData || undefined\<close>, the loading card, or the result card with the
  stored prediction (nothing when there is none).
\<close>

datatype content =
    UploadContent
  | ManualFormContent "PartialHeartDiseaseInput option"
  | LoadingContent
  | ResultContent HeartDiseasePrediction
  | NoContent

definition renderContent :: "App \<Rightarrow> content" where
  "renderContent s =
     (case currentState s of
        Upload \<Rightarrow> UploadContent
      | Manual \<Rightarrow> ManualFormContent (map_option as_partial (extractedData s))
      | Loading \<Rightarrow> LoadingContent
      | Result \<Rightarrow> (case prediction s of Some p \<Rightarrow> ResultContent p | None \<Rightarrow> NoContent))"

text \<open>The wiring of the props: what the App does with a call of each card.\<close>

definition on_upload_callback :: "App \<Rightarrow> upload_callback option \<Rightarrow> App" where
  "on_upload_callback s called =
     (case called of
        None \<Rightarrow> s
      | Some (OnDataExtracted d) \<Rightarrow> handleDataExtracted s d
      | Some (OnUploadError m) \<Rightarrow> handleError s m)"

definition on_form_callback ::
  "(HeartDiseaseInput \<Rightarrow> HeartDiseasePrediction settled) \<Rightarrow> App \<Rightarrow> form_callback
     \<Rightarrow> App \<times> HeartDiseaseInput list" where
  "on_form_callback predict s called =
     (case called of
        OnSubmit d \<Rightarrow> handleFormSubmit predict s d
      | OnError m \<Rightarrow> (handleError s m, []))"

section \<open>The domains of the continuous fields\<close>

text \<open>
  The seven continuous fields and their domains as the specification's data model lists
  them; \<open>validation_message\<close> is the message the form has for a field and \<open>field_label\<close>
  the name it begins with. These are the vocabulary of the statements about
  \<open>handleSubmit\<close>, which itself is defined above from its source.
\<close>

datatype continuous_field =
  Age | Cholesterol | Blood_pressure | Heart_rate | Stress_level | Blood_sugar | Exercise_hours

fun field_value :: "continuous_field \<Rightarrow> HeartDiseaseInput \<Rightarrow> number" where
  "field_value Age fd = age fd"
| "field_value Cholesterol fd = cholesterol fd"
| "field_value Blood_pressure fd = blood_pressure fd"
| "field_value Heart_rate fd = heart_rate fd"
| "field_value Stress_level fd = stress_level fd"
| "field_value Blood_sugar fd = blood_sugar fd"
| "field_value Exercise_hours fd = exercise_hours fd"

fun domain_min :: "continuous_field \<Rightarrow> number" where
  "domain_min Age = 18"
| "domain_min Cholesterol = 100"
| "domain_min Blood_pressure = 60"
| "domain_min Heart_rate = 40"
| "domain_min Stress_level = 1"
| "domain_min Blood_sugar = 70"
| "domain_min Exercise_hours = 0"

fun domain_max :: "continuous_field \<Rightarrow> number" where
  "domain_max Age = 120"
| "domain_max Cholesterol = 600"
| "domain_max Blood_pressure = 250"
| "domain_max Heart_rate = 200"
| "domain_max Stress_level = 10"
| "domain_max Blood_sugar = 300"
| "domain_max Exercise_hours = 24"

definition in_domain :: "continuous_field \<Rightarrow> HeartDiseaseInput \<Rightarrow> bool" where
  "in_domain g fd = (domain_min g \<le> field_value g fd \<and> field_value g fd \<le> domain_max g)"

fun field_label :: "continuous_field \<Rightarrow> string" where
  "field_label Age = ''Age''"
| "field_label Cholesterol = ''Cholesterol''"
| "field_label Blood_pressure = ''Blood pressure''"
| "field_label Heart_rate = ''Heart rate''"
| "field_label Stress_level = ''Stress level''"
| "field_label Blood_sugar = ''Blood sugar''"
| "field_label Exercise_hours = ''Exercise hours''"

fun validation_message :: "continuous_field \<Rightarrow> string" where
  "validation_message Age = ''Age must be between 18 and 120''"
| "validation_message Cholesterol = ''Cholesterol must be between 100 and 600 mg/dL''"
| "validation_message Blood_pressure = ''Blood pressure must be between 60 and 250 mmHg''"
| "validation_message Heart_rate = ''Heart rate must be between 40 and 200 bpm''"
| "validation_message Stress_level = ''Stress level must be between 1 and 10''"
| "validation_message Blood_sugar = ''Blood sugar must be between 70 and 300 mg/dL''"
| "validation_message Exercise_hours = ''Exercise hours must be between 0 and 24 per week''"

text \<open>The input of the specification's scenario; it is also the form's default data.\<close>

definition scenario_input :: HeartDiseaseInput where
  "scenario_input =
     \<lparr> age = 50, gender = ''Male'', cholesterol = 200, blood_pressure = 120, heart_rate = 72,
       smoking = ''Never'', alcohol_intake = ''None'', exercise_hours = 3,
       family_history = False, diabetes = False, obesity = False, stress_level = 5,
       blood_sugar = 100, exercise_induced_angina = False, chest_pain_type = ''Asymptomatic'' \<rparr>"

text \<open>Inputs with every continuous field at the lower, and at the upper, bound of its domain.\<close>

definition lower_bounds_input :: HeartDiseaseInput where
  "lower_bounds_input =
     scenario_input\<lparr>age := 18, cholesterol := 100, blood_pressure := 60, heart_rate := 40,
       stress_level := 1, blood_sugar := 70, exercise_hours := 0\<rparr>"

definition upper_bounds_input :: HeartDiseaseInput where
  "upper_bounds_input =
     scenario_input\<lparr>age := 120, cholesterol := 600, blood_pressure := 250, heart_rate := 200,
       stress_level := 10, blood_sugar := 300, exercise_hours := 24\<rparr>"

text \<open>Values for the examples: a prediction, extracted data, and API behaviours.\<close>

definition stale_prediction :: HeartDiseasePrediction where
  "stale_prediction =
     \<lparr> risk_score = 1 / 4, risk_level = ''Low'',
       top_contributors = [\<lparr> feature = ''Age'', contribution = NumberValue 50, importance = 100 \<rparr>],
       model_version = ''1.0.0'', prediction_notes = [] \<rparr>"

definition extracted_example :: HeartDiseaseInput where
  "extracted_example = scenario_input\<lparr>age := 54, cholesterol := 210, exercise_hours := 0\<rparr>"

definition failing_predict :: "HeartDiseaseInput \<Rightarrow> HeartDiseasePrediction settled" where
  "failing_predict d = Rejected (ErrorObject ''Network Error'')"

definition app_with_stale_prediction :: App where
  "app_with_stale_prediction =
     \<lparr> currentState = Manual, prediction = Some stale_prediction, error = None,
       extractedData = None \<rparr>"

definition upload_ok :: "string \<Rightarrow> UploadResponse settled" where
  "upload_ok file =
     Fulfilled \<lparr> success = True, message = ''Medical data extracted successfully'',
       extracted_data = Some extracted_example, confidence = Some (4 / 5) \<rparr>"

definition upload_unreadable :: "string \<Rightarrow> UploadResponse settled" where
  "upload_unreadable file =
     Fulfilled \<lparr> success = False, message = ''No data could be extracted'',
       extracted_data = None, confidence = Some 0 \<rparr>"

section \<open>Properties of the risk level lookups\<close>

lemma toLowerCase_char_idem: "toLowerCase_char (toLowerCase_char c) = toLowerCase_char c"
  by (auto simp: toLowerCase_char_def Let_def)

lemma toLowerCase_idem: "toLowerCase (toLowerCase s) = toLowerCase s"
  by (simp add: toLowerCase_def toLowerCase_char_idem)

lemma toLowerCase_examples:
  "toLowerCase ''Low'' = ''low''"
  "toLowerCase ''MODERATE'' = ''moderate''"
  "toLowerCase ''hIgH'' = ''high''"
  "toLowerCase ''Critical'' = ''critical''"
  by code_simp+

text \<open>
  C8. For every risk level string the guidance lookup returns a non-empty text that is one
  of four fixed literals: a level that lower-cases to \<open>low\<close>, \<open>moderate\<close> or \<open>high\<close> gets
  the description of that tier, every other level gets \<open>Risk assessment completed.\<close>
\<close>

theorem getRiskDescription_static:
  "getRiskDescription level \<noteq> []
   \<and> getRiskDescription level \<in> set risk_descriptions
   \<and> (toLowerCase level = ''low'' \<longrightarrow> getRiskDescription level = risk_descriptions ! 0)
   \<and> (toLowerCase level = ''moderate'' \<longrightarrow> getRiskDescription level = risk_descriptions ! 1)
   \<and> (toLowerCase level = ''high'' \<longrightarrow> getRiskDescription level = risk_descriptions ! 2)
   \<and> (toLowerCase level \<notin> {''low'', ''moderate'', ''high''}
        \<longrightarrow> getRiskDescription level = ''Risk assessment completed.'')"
  by (simp add: getRiskDescription_def risk_descriptions_def Let_def)

theorem getRiskDescription_static_witness:
  "getRiskDescription ''Low'' =
     ''Your risk of heart disease is relatively low. Continue maintaining a healthy lifestyle.''
   \<and> getRiskDescription ''MODERATE'' =
     ''Your risk of heart disease is moderate. Consider lifestyle changes and regular health checkups.''
   \<and> getRiskDescription ''hIgH'' =
     ''Your risk of heart disease is high. Please consult a healthcare professional immediately.''
   \<and> getRiskDescription ''Critical'' = ''Risk assessment completed.''"
  using getRiskDescription_static [of "''Low''"] getRiskDescription_static [of "''MODERATE''"]
    getRiskDescription_static [of "''hIgH''"] getRiskDescription_static [of "''Critical''"]
  by (simp add: toLowerCase_examples risk_descriptions_def)

text \<open>
  C10. \<open>getRiskColor\<close> and \<open>getRiskIcon\<close> give the same result on a string and on its
  lower-case form; a string whose lower-case form is none of \<open>low\<close>, \<open>moderate\<close>, \<open>high\<close>
  gets the defaults \<open>text-gray-600 bg-gray-50\<close> and U+2753; no result is empty.
\<close>

theorem getRiskColor_Icon_case_insensitive:
  "getRiskColor s = getRiskColor (toLowerCase s)
   \<and> getRiskIcon s = getRiskIcon (toLowerCase s)
   \<and> (toLowerCase s \<notin> {''low'', ''moderate'', ''high''}
        \<longrightarrow> getRiskColor s = ''text-gray-600 bg-gray-50''
            \<and> getRiskIcon s = [CHR 0xE2, CHR 0x9D, CHR 0x93])
   \<and> getRiskColor s \<noteq> [] \<and> getRiskIcon s \<noteq> []"
  by (simp add: getRiskColor_def getRiskIcon_def Let_def toLowerCase_idem)

theorem getRiskColor_Icon_case_insensitive_witness:
  "toLowerCase ''Critical'' = ''critical''
   \<and> getRiskColor ''Critical'' = ''text-gray-600 bg-gray-50''
   \<and> getRiskIcon ''Critical'' = [CHR 0xE2, CHR 0x9D, CHR 0x93]
   \<and> getRiskColor ''hIgH'' = getRiskColor ''high''
   \<and> getRiskIcon ''hIgH'' = getRiskIcon ''high''"
proof -
  have other: "toLowerCase ''Critical'' \<notin> {''low'', ''moderate'', ''high''}"
    by (simp add: toLowerCase_examples)
  from getRiskColor_Icon_case_insensitive [of "''Critical''"] other
  have "getRiskColor ''Critical'' = ''text-gray-600 bg-gray-50''
        \<and> getRiskIcon ''Critical'' = [CHR 0xE2, CHR 0x9D, CHR 0x93]"
    by blast
  moreover from getRiskColor_Icon_case_insensitive [of "''hIgH''"]
  have "getRiskColor ''hIgH'' = getRiskColor ''high''
        \<and> getRiskIcon ''hIgH'' = getRiskIcon ''high''"
    by (simp only: toLowerCase_examples)
  ultimately show ?thesis
    by (simp only: toLowerCase_examples simp_thms)
qed

section \<open>Properties of the form's validation\<close>

lemma all_continuous_fields:
  "(\<forall>g. P g) =
     (P Age \<and> P Cholesterol \<and> P Blood_pressure \<and> P Heart_rate \<and> P Stress_level
      \<and> P Blood_sugar \<and> P Exercise_hours)"
proof
  assume r: "P Age \<and> P Cholesterol \<and> P Blood_pressure \<and> P Heart_rate \<and> P Stress_level
      \<and> P Blood_sugar \<and> P Exercise_hours"
  show "\<forall>g. P g"
  proof
    fix g show "P g" using r by (cases g) simp_all
  qed
qed simp

lemma basic_validation_Inr_iff:
  "(basic_validation fd = Inr ()) =
     (18 \<le> age fd \<and> age fd \<le> 120 \<and> 100 \<le> cholesterol fd \<and> cholesterol fd \<le> 600
      \<and> 60 \<le> blood_pressure fd \<and> blood_pressure fd \<le> 250
      \<and> 40 \<le> heart_rate fd \<and> heart_rate fd \<le> 200
      \<and> 1 \<le> stress_level fd \<and> stress_level fd \<le> 10
      \<and> 70 \<le> blood_sugar fd \<and> blood_sugar fd \<le> 300
      \<and> 0 \<le> exercise_hours fd \<and> exercise_hours fd \<le> 24)"
  unfolding basic_validation_def by (simp add: not_less)

lemma in_domain_all_iff:
  "(\<forall>g. in_domain g fd) =
     (18 \<le> age fd \<and> age fd \<le> 120 \<and> 100 \<le> cholesterol fd \<and> cholesterol fd \<le> 600
      \<and> 60 \<le> blood_pressure fd \<and> blood_pressure fd \<le> 250
      \<and> 40 \<le> heart_rate fd \<and> heart_rate fd \<le> 200
      \<and> 1 \<le> stress_level fd \<and> stress_level fd \<le> 10
      \<and> 70 \<le> blood_sugar fd \<and> blood_sugar fd \<le> 300
      \<and> 0 \<le> exercise_hours fd \<and> exercise_hours fd \<le> 24)"
  by (subst all_continuous_fields) (simp add: in_domain_def)

lemma basic_validation_in_domain:
  "(basic_validation fd = Inr ()) = (\<forall>g. in_domain g fd)"
  by (simp only: basic_validation_Inr_iff in_domain_all_iff)

lemma basic_validation_one_outside:
  assumes others: "\<forall>g. g \<noteq> f \<longrightarrow> in_domain g fd"
    and out: "\<not> in_domain f fd"
  shows "basic_validation fd = Inl (validation_message f)"
proof -
  have d: "g \<noteq> f \<Longrightarrow> domain_min g \<le> field_value g fd \<and> field_value g fd \<le> domain_max g" for g
    using others by (simp add: in_domain_def)
  have o: "field_value f fd < domain_min f \<or> domain_max f < field_value f fd"
    using out by (auto simp: in_domain_def)
  show ?thesis
  proof (cases f)
    case Age
    with o show ?thesis
      by (simp add: basic_validation_def)
  next
    case Cholesterol
    with o d [of Age] show ?thesis
      by (simp add: basic_validation_def)
  next
    case Blood_pressure
    with o d [of Age] d [of Cholesterol] show ?thesis
      by (simp add: basic_validation_def)
  next
    case Heart_rate
    with o d [of Age] d [of Cholesterol] d [of Blood_pressure] show ?thesis
      by (simp add: basic_validation_def)
  next
    case Stress_level
    with o d [of Age] d [of Cholesterol] d [of Blood_pressure] d [of Heart_rate]
    show ?thesis
      by (simp add: basic_validation_def)
  next
    case Blood_sugar
    with o d [of Age] d [of Cholesterol] d [of Blood_pressure] d [of Heart_rate]
      d [of Stress_level]
    show ?thesis
      by (simp add: basic_validation_def)
  next
    case Exercise_hours
    with o d [of Age] d [of Cholesterol] d [of Blood_pressure] d [of Heart_rate]
      d [of Stress_level] d [of Blood_sugar]
    show ?thesis
      by (simp add: basic_validation_def)
  qed
qed

lemma handleSubmit_eq:
  "handleSubmit st =
     (st\<lparr>isSubmitting := False\<rparr>,
      case basic_validation (formData st) of Inr _ \<Rightarrow> OnSubmit (formData st) | Inl m \<Rightarrow> OnError m)"
  by (simp add: handleSubmit_def Let_def message_or_def split: sum.split)

lemma field_label_begins_message:
  "take (length (field_label f)) (validation_message f) = field_label f"
  by (cases f) simp_all


lemma one_unit_outside:
  assumes "field_value f fd = domain_min f - 1 \<or> field_value f fd = domain_max f + 1"
  shows "\<not> in_domain f fd"
  using assms by (auto simp: in_domain_def)

lemma domain_min_le_max: "domain_min g \<le> domain_max g"
  by (cases g) simp_all

lemma initialFormData_default: "initialFormData None = scenario_input"
  by (simp add: initialFormData_def optional_chain_def or_number_def or_string_def
      or_boolean_def scenario_input_def)

text \<open>
  C2. When one continuous field of the form data lies one unit below or above its domain
  and the other six are within theirs, \<open>handleSubmit\<close> calls \<open>onError\<close> with the message of
  that field, which begins with the field's name; it does not call \<open>onSubmit\<close>, and the form
  data keeps the value as entered.
\<close>

theorem out_of_domain_rejected:
  assumes others: "\<forall>g. g \<noteq> f \<longrightarrow> in_domain g (formData st)"
    and off: "field_value f (formData st) = domain_min f - 1
              \<or> field_value f (formData st) = domain_max f + 1"
  shows "snd (handleSubmit st) = OnError (validation_message f)
         \<and> take (length (field_label f)) (validation_message f) = field_label f
         \<and> (\<forall>d. snd (handleSubmit st) \<noteq> OnSubmit d)
         \<and> formData (fst (handleSubmit st)) = formData st"
proof -
  have "basic_validation (formData st) = Inl (validation_message f)"
    using others one_unit_outside [OF off] by (rule basic_validation_one_outside)
  then show ?thesis
    by (simp add: handleSubmit_eq field_label_begins_message)
qed

theorem out_of_domain_rejected_witness:
  "field_value Age (scenario_input\<lparr>age := 17\<rparr>) = domain_min Age - 1
   \<and> snd (handleSubmit \<lparr>formData = scenario_input\<lparr>age := 17\<rparr>, isSubmitting = False\<rparr>)
       = OnError ''Age must be between 18 and 120''
   \<and> field_value Exercise_hours (scenario_input\<lparr>exercise_hours := 25\<rparr>)
       = domain_max Exercise_hours + 1
   \<and> snd (handleSubmit \<lparr>formData = scenario_input\<lparr>exercise_hours := 25\<rparr>, isSubmitting = False\<rparr>)
       = OnError ''Exercise hours must be between 0 and 24 per week''"
proof -
  let ?a = "\<lparr>formData = scenario_input\<lparr>age := 17\<rparr>, isSubmitting = False\<rparr>"
  let ?e = "\<lparr>formData = scenario_input\<lparr>exercise_hours := 25\<rparr>, isSubmitting = False\<rparr>"
  have a1: "\<forall>g. g \<noteq> Age \<longrightarrow> in_domain g (formData ?a)"
    by (subst all_continuous_fields) (simp add: in_domain_def scenario_input_def)
  have a2: "field_value Age (formData ?a) = domain_min Age - 1
            \<or> field_value Age (formData ?a) = domain_max Age + 1"
    by (simp add: scenario_input_def)
  have e1: "\<forall>g. g \<noteq> Exercise_hours \<longrightarrow> in_domain g (formData ?e)"
    by (subst all_continuous_fields) (simp add: in_domain_def scenario_input_def)
  have e2: "field_value Exercise_hours (formData ?e) = domain_min Exercise_hours - 1
            \<or> field_value Exercise_hours (formData ?e) = domain_max Exercise_hours + 1"
    by (simp add: scenario_input_def)
  from out_of_domain_rejected [OF a1 a2] out_of_domain_rejected [OF e1 e2]
  show ?thesis
    by (simp add: scenario_input_def)
qed

text \<open>
  C3. When every continuous field of the form data equals the lower or the upper bound of
  its domain, \<open>handleSubmit\<close> calls \<open>onSubmit\<close> with the form data as it is.
\<close>

theorem boundary_values_accepted:
  assumes "\<forall>g. field_value g (formData st) = domain_min g
               \<or> field_value g (formData st) = domain_max g"
  shows "snd (handleSubmit st) = OnSubmit (formData st)
         \<and> formData (fst (handleSubmit st)) = formData st"
proof -
  have "in_domain g (formData st)" for g
    using assms [rule_format, of g] domain_min_le_max [of g] by (auto simp: in_domain_def)
  then have "basic_validation (formData st) = Inr ()"
    by (simp add: basic_validation_in_domain)
  then show ?thesis
    by (simp add: handleSubmit_eq)
qed

theorem boundary_values_accepted_witness:
  "snd (handleSubmit \<lparr>formData = lower_bounds_input, isSubmitting = False\<rparr>)
     = OnSubmit lower_bounds_input
   \<and> snd (handleSubmit \<lparr>formData = upper_bounds_input, isSubmitting = False\<rparr>)
     = OnSubmit upper_bounds_input
   \<and> age lower_bounds_input = 18 \<and> age upper_bounds_input = 120
   \<and> exercise_hours lower_bounds_input = 0 \<and> exercise_hours upper_bounds_input = 24"
proof -
  let ?l = "\<lparr>formData = lower_bounds_input, isSubmitting = False\<rparr>"
  let ?u = "\<lparr>formData = upper_bounds_input, isSubmitting = False\<rparr>"
  have l: "\<forall>g. field_value g (formData ?l) = domain_min g
               \<or> field_value g (formData ?l) = domain_max g"
    by (subst all_continuous_fields) (simp add: lower_bounds_input_def scenario_input_def)
  have u: "\<forall>g. field_value g (formData ?u) = domain_min g
               \<or> field_value g (formData ?u) = domain_max g"
    by (subst all_continuous_fields) (simp add: upper_bounds_input_def scenario_input_def)
  from boundary_values_accepted [OF l] boundary_values_accepted [OF u]
  show ?thesis
    by (simp add: lower_bounds_input_def upper_bounds_input_def scenario_input_def)
qed

text \<open>
  C4, as stated, fails: \<open>handleSubmit\<close> has no check of a categorical field. The scenario
  input with gender \<open>Other\<close> is passed to \<open>onSubmit\<close>.
\<close>

theorem categorical_outside_enumeration_accepted:
  "gender (scenario_input\<lparr>gender := ''Other''\<rparr>) \<notin> set gender_values
   \<and> snd (handleSubmit \<lparr>formData = scenario_input\<lparr>gender := ''Other''\<rparr>, isSubmitting = False\<rparr>)
       = OnSubmit (scenario_input\<lparr>gender := ''Other''\<rparr>)"
  by (simp add: handleSubmit_eq basic_validation_def scenario_input_def gender_values_def)

text \<open>
  C4, amended. \<open>handleSubmit\<close> validates the continuous fields only: it calls \<open>onSubmit\<close>
  with the form data exactly when every continuous field is within its domain, and whether
  it reports an error, and which, does not change when the four categorical fields are
  given any other values.
\<close>

theorem handleSubmit_validates_continuous_only:
  "(snd (handleSubmit st) = OnSubmit (formData st)) = (\<forall>g. in_domain g (formData st))
   \<and> (snd (handleSubmit (st\<lparr>formData := (formData st)\<lparr>gender := gd, smoking := sm,
            alcohol_intake := al, chest_pain_type := cp\<rparr>\<rparr>)) = OnError m)
       = (snd (handleSubmit st) = OnError m)"
proof -
  have accepted: "(snd (handleSubmit st) = OnSubmit (formData st)) = (\<forall>g. in_domain g (formData st))"
    unfolding basic_validation_in_domain [symmetric]
    by (simp add: handleSubmit_eq split: sum.split)
  have same: "basic_validation ((formData st)\<lparr>gender := gd, smoking := sm,
            alcohol_intake := al, chest_pain_type := cp\<rparr>) = basic_validation (formData st)"
    by (simp add: basic_validation_def)
  have rejected: "(snd (handleSubmit (st\<lparr>formData := (formData st)\<lparr>gender := gd, smoking := sm,
            alcohol_intake := al, chest_pain_type := cp\<rparr>\<rparr>)) = OnError m)
       = (snd (handleSubmit st) = OnError m)"
    by (simp add: handleSubmit_eq same split: sum.split)
  from accepted rejected show ?thesis ..
qed

text \<open>
  C9. An \<open>initialData\<close> that holds 0 for \<open>exercise_hours\<close>, or \<open>false\<close> for one of the four
  boolean fields, gives the same initial form data as one in which the field is missing:
  the field gets its default. For \<open>exercise_hours\<close> that is 3 although 0 is within the
  field's domain.
\<close>

theorem falsy_initial_values_replaced:
  "initialFormData (Some (p\<lparr>exercise_hours_opt := Some 0\<rparr>))
     = initialFormData (Some (p\<lparr>exercise_hours_opt := None\<rparr>))
   \<and> exercise_hours (initialFormData (Some (p\<lparr>exercise_hours_opt := Some 0\<rparr>))) = 3
   \<and> exercise_hours (initialFormData (Some (as_partial (d\<lparr>exercise_hours := 0\<rparr>)))) = 3
   \<and> in_domain Exercise_hours (d\<lparr>exercise_hours := 0\<rparr>)
   \<and> initialFormData (Some (p\<lparr>family_history_opt := Some False\<rparr>))
     = initialFormData (Some (p\<lparr>family_history_opt := None\<rparr>))
   \<and> initialFormData (Some (p\<lparr>diabetes_opt := Some False\<rparr>))
     = initialFormData (Some (p\<lparr>diabetes_opt := None\<rparr>))
   \<and> initialFormData (Some (p\<lparr>obesity_opt := Some False\<rparr>))
     = initialFormData (Some (p\<lparr>obesity_opt := None\<rparr>))
   \<and> initialFormData (Some (p\<lparr>exercise_induced_angina_opt := Some False\<rparr>))
     = initialFormData (Some (p\<lparr>exercise_induced_angina_opt := None\<rparr>))"
  by (simp add: initialFormData_def optional_chain_def or_number_def or_boolean_def
      as_partial_def in_domain_def)

section \<open>Properties of the App and of the upload card\<close>

lemma fulfilled_predict_shows_result:
  "predict d = Fulfilled r \<Longrightarrow>
     fst (handleFormSubmit predict s d) = s\<lparr>currentState := Result, prediction := Some r, error := None\<rparr>
     \<and> renderContent (fst (handleFormSubmit predict s d)) = ResultContent r
     \<and> snd (handleFormSubmit predict s d) = [d]"
  by (simp add: handleFormSubmit_def handleFormSubmit_pending_def renderContent_def)

text \<open>
  C5. When \<open>apiClient.predict\<close> rejects, \<open>handleFormSubmit\<close> ends in the state it was called
  in except that \<open>currentState\<close> is \<open>manual\<close> and \<open>error\<close> holds the message: the stored
  prediction is untouched, the loading card is mounted while the call is awaited and the
  manual form after it, never a result card, and exactly one request was sent.
\<close>

theorem failed_predict_returns_to_form:
  assumes "predict d = Rejected err"
  shows "fst (handleFormSubmit predict s d)
           = s\<lparr>currentState := Manual, error := Some (message_or err ''Prediction failed'')\<rparr>
         \<and> prediction (fst (handleFormSubmit predict s d)) = prediction s
         \<and> renderContent (handleFormSubmit_pending s) = LoadingContent
         \<and> renderContent (fst (handleFormSubmit predict s d))
             = ManualFormContent (map_option as_partial (extractedData s))
         \<and> snd (handleFormSubmit predict s d) = [d]"
  using assms
  by (simp add: handleFormSubmit_def handleFormSubmit_pending_def renderContent_def)

theorem failed_predict_returns_to_form_witness:
  "failing_predict scenario_input = Rejected (ErrorObject ''Network Error'')
   \<and> fst (handleFormSubmit failing_predict app_with_stale_prediction scenario_input)
       = app_with_stale_prediction\<lparr>error := Some ''Network Error''\<rparr>
   \<and> renderContent (fst (handleFormSubmit failing_predict app_with_stale_prediction scenario_input))
       = ManualFormContent None
   \<and> snd (handleFormSubmit failing_predict app_with_stale_prediction scenario_input)
       = [scenario_input]"
proof -
  have r: "failing_predict scenario_input = Rejected (ErrorObject ''Network Error'')"
    by (simp add: failing_predict_def)
  from failed_predict_returns_to_form [where predict = failing_predict and d = scenario_input
      and s = app_with_stale_prediction, OF r] r
  show ?thesis
    by (simp add: message_or_def app_with_stale_prediction_def renderContent_def)
qed

text \<open>
  C6. When the upload of the first dropped file is answered, the App's prediction is left
  as it was. With \<open>success\<close> and extracted data, the data is stored, the error is
  cleared and the manual form is mounted with the data as its \<open>initialData\<close>. Without
  \<open>success\<close> or without extracted data, only \<open>error\<close> changes, to the response's message,
  and the card does not render the button that would pass extracted data on.
\<close>

theorem upload_fills_form_only:
  assumes "uploadFile doc = Fulfilled r"
  shows "(success r \<and> extracted_data r = Some d \<longrightarrow>
            on_upload_callback s (snd (onDrop uploadFile uc (doc # docs)))
              = s\<lparr>extractedData := Some d, currentState := Manual, error := None\<rparr>
            \<and> prediction (on_upload_callback s (snd (onDrop uploadFile uc (doc # docs))))
                = prediction s
            \<and> renderContent (on_upload_callback s (snd (onDrop uploadFile uc (doc # docs))))
                = ManualFormContent (Some (as_partial d)))
         \<and> (\<not> (success r \<and> extracted_data r \<noteq> None) \<longrightarrow>
            on_upload_callback s (snd (onDrop uploadFile uc (doc # docs)))
              = s\<lparr>error := Some (message r)\<rparr>
            \<and> \<not> extracted_button_rendered (fst (onDrop uploadFile uc (doc # docs))))"
  using assms
  by (auto simp: onDrop_def on_upload_callback_def handleDataExtracted_def handleError_def
      renderContent_def extracted_button_rendered_def Let_def split: option.splits)

theorem upload_fills_form_only_witness:
  "on_upload_callback app_with_stale_prediction
       (snd (onDrop upload_ok UploadCard_mount [''report.pdf'']))
     = app_with_stale_prediction\<lparr>extractedData := Some extracted_example\<rparr>
   \<and> renderContent (on_upload_callback app_with_stale_prediction
       (snd (onDrop upload_ok UploadCard_mount [''report.pdf''])))
     = ManualFormContent (Some (as_partial extracted_example))
   \<and> on_upload_callback app_with_stale_prediction
       (snd (onDrop upload_unreadable UploadCard_mount [''report.pdf'']))
     = app_with_stale_prediction\<lparr>error := Some ''No data could be extracted''\<rparr>"
proof -
  let ?ok = "\<lparr> success = True, message = ''Medical data extracted successfully'',
       extracted_data = Some extracted_example, confidence = Some (4 / 5) \<rparr>"
  let ?bad = "\<lparr> success = False, message = ''No data could be extracted'',
       extracted_data = None, confidence = Some 0 \<rparr>"
  have ok: "upload_ok ''report.pdf'' = Fulfilled ?ok"
    by (simp add: upload_ok_def)
  have bad: "upload_unreadable ''report.pdf'' = Fulfilled ?bad"
    by (simp add: upload_unreadable_def)
  from upload_fills_form_only [where uploadFile = upload_ok and doc = "''report.pdf''"
      and d = extracted_example and s = app_with_stale_prediction and uc = UploadCard_mount
      and docs = "[]", OF ok]
    upload_fills_form_only [where uploadFile = upload_unreadable and doc = "''report.pdf''"
      and s = app_with_stale_prediction and uc = UploadCard_mount and docs = "[]", OF bad]
  show ?thesis
    by (simp add: app_with_stale_prediction_def renderContent_def)
qed

end
